theory Spec2Isabelle
  imports Main "HOL-Library.Sublist"
begin

section \<open>React values\<close>

text \<open>
  The starter application consists of two function components written in JSX
  (\<^verbatim>\<open>src/app/page.tsx\<close>, \<^verbatim>\<open>src/app/layout.tsx\<close>), a static metadata object and
  two interface declarations (\<^verbatim>\<open>src/types/index.ts\<close>).

  A \<^verbatim>\<open>React.ReactNode\<close> is \<^verbatim>\<open>undefined\<close>, \<^verbatim>\<open>null\<close>, a boolean, a string, a number,
  an array of nodes, or an element. An element carries its type (the tag name of a
  host element), its attribute props in source order, and its \<^verbatim>\<open>children\<close> prop,
  which is again a node. Numbers are restricted to integers here, and the remaining
  alternatives of the type (bigints, portals, promises of nodes) are left out; no
  component of the application ever looks inside the node it is given.
\<close>

datatype react_node =
    RUndefined
  | RNull
  | RBoolean bool
  | RString string
  | RNumber int
  | RArray "react_node list"
  | RElement (elem_type: string) (elem_attrs: "(string \<times> string) list")
      (elem_children: react_node)

text \<open>
  A call of a JavaScript function completes normally with a value or abruptly with
  a thrown error. The only error the two components can meet is the \<^verbatim>\<open>TypeError\<close> of
  destructuring \<^verbatim>\<open>undefined\<close> or \<^verbatim>\<open>null\<close>.
\<close>

datatype js_error = TypeError

type_synonym 'a completion = "js_error + 'a"

text \<open>
  The argument a function receives at run time, where the types are erased: an
  object of the shape \<^typ>\<open>'p\<close>, or \<^verbatim>\<open>undefined\<close>/\<^verbatim>\<open>null\<close>.
\<close>

datatype 'p js_arg = Nullish | Object 'p

section \<open>JSX\<close>

text \<open>
  The children written between the tags of a JSX element are pieces of text,
  nested elements and expression containers \<^verbatim>\<open>{e}\<close>; the last two contribute the
  value they evaluate to. The text pieces are taken as they stand in the source
  files, line breaks and indentation included. Character references
  (\<^verbatim>\<open>&nbsp;\<close> and the like) do not occur in them and are not decoded.
\<close>

datatype jsx_child = JSXText string | JSXValue react_node

definition LF :: char where "LF = CHR 0x0A"
definition CR :: char where "CR = CHR 0x0D"
definition TAB :: char where "TAB = CHR 0x09"
definition SPACE :: char where "SPACE = CHR '' ''"

text \<open>Splitting at \<^verbatim>\<open>\r\n\<close>, \<^verbatim>\<open>\n\<close> and \<^verbatim>\<open>\r\<close>; a text without a line break is one line.\<close>

fun cons_to_first :: "char \<Rightarrow> string list \<Rightarrow> string list" where
  "cons_to_first c [] = [[c]]"
| "cons_to_first c (l # ls) = (c # l) # ls"

fun split_lines :: "string \<Rightarrow> string list" where
  "split_lines [] = [[]]"
| "split_lines [c] = (if c = LF \<or> c = CR then [[], []] else [[c]])"
| "split_lines (c # d # cs) =
     (if c = CR \<and> d = LF then [] # split_lines cs
      else if c = LF \<or> c = CR then [] # split_lines (d # cs)
      else cons_to_first c (split_lines (d # cs)))"

text \<open>
  The index of the last line holding a character other than a space or a tab, and
  0 when there is none.
\<close>

definition is_blank :: "string \<Rightarrow> bool" where
  "is_blank l = list_all (\<lambda>c. c = SPACE \<or> c = TAB) l"

definition last_non_empty_line :: "string list \<Rightarrow> nat" where
  "last_non_empty_line ls =
     fold (\<lambda>(i, l) acc. if is_blank l then acc else i) (enumerate 0 ls) 0"

text \<open>
  One line of a JSX text: tabs become spaces, the spaces in front are dropped unless
  the line is the first, the spaces at the end are dropped unless the line is the
  last, and a line that is still not empty is followed by one space unless it is
  the last non-empty line. Turning tabs into spaces is the rule of the Babel
  compiler; JSX compilers do not agree on tabs, and the texts of this application
  hold none (\<open>source_texts_have_no_tab\<close> below), so that step never changes them.
\<close>

definition clean_line :: "bool \<Rightarrow> bool \<Rightarrow> bool \<Rightarrow> string \<Rightarrow> string" where
  "clean_line is_first is_last is_last_non_empty l =
     (let t0 = map (\<lambda>c. if c = TAB then SPACE else c) l;
          t1 = (if is_first then t0 else dropWhile (\<lambda>c. c = SPACE) t0);
          t2 = (if is_last then t1 else rev (dropWhile (\<lambda>c. c = SPACE) (rev t1)))
      in if t2 = [] then [] else if is_last_non_empty then t2 else t2 @ [SPACE])"

definition clean_jsx_text :: "string \<Rightarrow> string" where
  "clean_jsx_text text =
     (let ls = split_lines text;
          n = length ls;
          k = last_non_empty_line ls
      in concat (map (\<lambda>(i, l). clean_line (i = 0) (Suc i = n) (i = k) l)
                     (enumerate 0 ls)))"

text \<open>
  A text child whose cleaned text is empty is dropped; every other child
  contributes one value.
\<close>

fun jsx_child_values :: "jsx_child \<Rightarrow> react_node list" where
  "jsx_child_values (JSXText t) =
     (let s = clean_jsx_text t in if s = [] then [] else [RString s])"
| "jsx_child_values (JSXValue v) = [v]"

text \<open>
  The \<^verbatim>\<open>children\<close> prop: absent without children, the child itself when there is
  one, and the array of the children when there are several.
\<close>

fun children_prop :: "react_node list \<Rightarrow> react_node" where
  "children_prop [] = RUndefined"
| "children_prop [v] = v"
| "children_prop vs = RArray vs"

definition jsx :: "string \<Rightarrow> (string \<times> string) list \<Rightarrow> jsx_child list \<Rightarrow> react_node" where
  "jsx type attrs kids = RElement type attrs (children_prop (concat (map jsx_child_values kids)))"

section \<open>The shared type declarations\<close>

text \<open>
  \<^verbatim>\<open>Promise<T>\<close>: pending, fulfilled with a \<^verbatim>\<open>T\<close>, or rejected.
  \<^verbatim>\<open>Record<string, T>\<close>: a map from strings to \<^verbatim>\<open>T\<close>.
  \<^verbatim>\<open>string | string[] | undefined\<close>: a three-way union.
\<close>

datatype 'a promise = Pending | Fulfilled 'a | Rejected

datatype search_value = SString string | SArray "string list" | SUndefined

record PageProps =
  params :: "(string \<rightharpoonup> string) promise"
  searchParams :: "(string \<rightharpoonup> search_value) promise"

text \<open>
  The parameter of \<^verbatim>\<open>RootLayout\<close> is declared as \<^verbatim>\<open>Readonly<{ children: React.ReactNode }>\<close>.
  TypeScript types are structural, so an interface with a \<^verbatim>\<open>children\<close> field of that
  type and further fields is a subtype of it; \<^verbatim>\<open>LayoutProps\<close> is therefore the
  extension of this record by \<^verbatim>\<open>params\<close>.
\<close>

record ChildrenProps =
  children :: react_node

record LayoutProps = ChildrenProps +
  params :: "(string \<rightharpoonup> string) promise"

section \<open>The components\<close>

text \<open>
  \<^verbatim>\<open>HomePage\<close> declares no parameter: whatever the caller passes is ignored.
\<close>

definition HomePage :: "'a \<Rightarrow> react_node completion" where
  "HomePage args =
     Inr (jsx ''main'' [(''className'', ''flex min-h-screen flex-col items-center justify-center p-24'')]
       [JSXText ''\<newline>      '',
        JSXValue (jsx ''h1'' [(''className'', ''text-4xl font-bold'')]
          [JSXText ''Frontend Template'']),
        JSXText ''\<newline>      '',
        JSXValue (jsx ''p'' [(''className'', ''mt-4 text-lg text-gray-600'')]
          [JSXText ''\<newline>        Next.js + React + Tailwind CSS\<newline>      '']),
        JSXText ''\<newline>    ''])"

definition metadata :: "(string \<times> string) list" where
  "metadata =
     [(''title'', ''Frontend Template''),
      (''description'', ''Next.js frontend template with Tailwind CSS'')]"

text \<open>
  \<^verbatim>\<open>RootLayout\<close> destructures its argument in the parameter list, which throws on
  \<^verbatim>\<open>undefined\<close> and \<^verbatim>\<open>null\<close>, and reads the \<^verbatim>\<open>children\<close> property only.
\<close>

definition RootLayout :: "'a ChildrenProps_scheme js_arg \<Rightarrow> react_node completion" where
  "RootLayout arg =
     (case arg of
        Nullish \<Rightarrow> Inl TypeError
      | Object props \<Rightarrow>
          Inr (jsx ''html'' [(''lang'', ''en'')]
            [JSXText ''\<newline>      '',
             JSXValue (jsx ''body'' [(''className'', ''antialiased'')]
               [JSXValue (children props)]),
             JSXText ''\<newline>    '']))"

text \<open>
  The property names that the two declarations list: the type of the parameter of
  \<^verbatim>\<open>RootLayout\<close>, \<^verbatim>\<open>Readonly<{ children: React.ReactNode }>\<close>, and the interface
  \<^verbatim>\<open>LayoutProps\<close>. \<^verbatim>\<open>RootLayout\<close> does not refer to \<^verbatim>\<open>LayoutProps\<close>.
\<close>

definition RootLayout_param_properties :: "string list" where
  "RootLayout_param_properties = [''children'']"

definition LayoutProps_properties :: "string list" where
  "LayoutProps_properties = [''children'', ''params'']"

section \<open>Reading a rendered tree\<close>

text \<open>
  The parts of an element, and \<^term>\<open>None\<close> for a node that is not an element.
\<close>

definition tag_of :: "react_node \<Rightarrow> string option" where
  "tag_of v = (case v of RElement t a c \<Rightarrow> Some t | _ \<Rightarrow> None)"

definition attr :: "react_node \<Rightarrow> string \<Rightarrow> string option" where
  "attr v k = (case v of RElement t a c \<Rightarrow> map_of a k | _ \<Rightarrow> None)"

definition prop_children :: "react_node \<Rightarrow> react_node option" where
  "prop_children v = (case v of RElement t a c \<Rightarrow> Some c | _ \<Rightarrow> None)"

text \<open>The text of an element whose only child is a string.\<close>

definition text_of :: "react_node \<Rightarrow> string option" where
  "text_of v = (case v of RElement t a (RString s) \<Rightarrow> Some s | _ \<Rightarrow> None)"

definition has_text_containing :: "string \<Rightarrow> react_node \<Rightarrow> bool" where
  "has_text_containing lit v = (case text_of v of Some s \<Rightarrow> sublist lit s | None \<Rightarrow> False)"

text \<open>The class names of an element: its \<^verbatim>\<open>className\<close> split at spaces.\<close>

fun tokens_from :: "string \<Rightarrow> string \<Rightarrow> string list" where
  "tokens_from acc [] = (if acc = [] then [] else [rev acc])"
| "tokens_from acc (c # cs) =
     (if c = SPACE
      then (if acc = [] then tokens_from [] cs else rev acc # tokens_from [] cs)
      else tokens_from (c # acc) cs)"

definition class_names :: "react_node \<Rightarrow> string list" where
  "class_names v = (case attr v ''className'' of Some s \<Rightarrow> tokens_from [] s | None \<Rightarrow> [])"

text \<open>
  All nodes of a tree, and its elements only, in document order (an element before
  its children, the items of an array from left to right).
\<close>

fun nodes_of :: "react_node \<Rightarrow> react_node list" where
  "nodes_of (RArray vs) = RArray vs # concat (map nodes_of vs)"
| "nodes_of (RElement t a c) = RElement t a c # nodes_of c"
| "nodes_of v = [v]"

fun elements_of :: "react_node \<Rightarrow> react_node list" where
  "elements_of (RArray vs) = concat (map elements_of vs)"
| "elements_of (RElement t a c) = RElement t a c # elements_of c"
| "elements_of v = []"

definition is_heading :: "react_node \<Rightarrow> bool" where
  "is_heading v =
     (case tag_of v of
        Some t \<Rightarrow> t \<in> set [''h1'', ''h2'', ''h3'', ''h4'', ''h5'', ''h6'']
      | None \<Rightarrow> False)"

definition is_paragraph :: "react_node \<Rightarrow> bool" where
  "is_paragraph v = (tag_of v = Some ''p'')"

section \<open>Evaluating the JSX of the components\<close>

lemmas jsx_text_defs =
  clean_jsx_text_def clean_line_def last_non_empty_line_def is_blank_def
  LF_def CR_def TAB_def SPACE_def

lemma indent6_dropped: "jsx_child_values (JSXText ''\<newline>      '') = []"
  by (simp add: jsx_text_defs)

lemma indent4_dropped: "jsx_child_values (JSXText ''\<newline>    '') = []"
  by (simp add: jsx_text_defs)

lemma heading_text_kept:
  "jsx_child_values (JSXText ''Frontend Template'') = [RString ''Frontend Template'']"
  by (simp add: jsx_text_defs)

lemma paragraph_text_trimmed:
  "jsx_child_values (JSXText ''\<newline>        Next.js + React + Tailwind CSS\<newline>      '')
     = [RString ''Next.js + React + Tailwind CSS'']"
  by (simp add: jsx_text_defs)

lemma HomePage_tree:
  "HomePage args =
     Inr (RElement ''main''
       [(''className'', ''flex min-h-screen flex-col items-center justify-center p-24'')]
       (RArray
         [RElement ''h1'' [(''className'', ''text-4xl font-bold'')]
           (RString ''Frontend Template''),
          RElement ''p'' [(''className'', ''mt-4 text-lg text-gray-600'')]
           (RString ''Next.js + React + Tailwind CSS'')]))"
  unfolding HomePage_def jsx_def
  by (simp only: indent6_dropped indent4_dropped heading_text_kept paragraph_text_trimmed
        jsx_child_values.simps(2) list.map concat.simps append.simps children_prop.simps)

lemma RootLayout_Object:
  "RootLayout (Object props) =
     Inr (RElement ''html'' [(''lang'', ''en'')]
       (RElement ''body'' [(''className'', ''antialiased'')] (children props)))"
  unfolding RootLayout_def jsx_def
  by (simp only: indent6_dropped indent4_dropped jsx_child_values.simps(2) list.map
        concat.simps append.simps children_prop.simps js_arg.case)

lemma RootLayout_Nullish: "RootLayout Nullish = Inl TypeError"
  by (simp add: RootLayout_def)

lemma source_texts_have_no_tab:
  "TAB \<notin> set ''\<newline>      ''
   \<and> TAB \<notin> set ''\<newline>    ''
   \<and> TAB \<notin> set ''Frontend Template''
   \<and> TAB \<notin> set ''\<newline>        Next.js + React + Tailwind CSS\<newline>      ''"
  by (simp add: TAB_def)

section \<open>The Home Page\<close>

text \<open>
  Claim C1. \<^verbatim>\<open>HomePage\<close>, called with no arguments, returns a \<^verbatim>\<open>main\<close> element whose
  class names are \<^verbatim>\<open>flex\<close>, \<^verbatim>\<open>min-h-screen\<close>, \<^verbatim>\<open>flex-col\<close>, \<^verbatim>\<open>items-center\<close>,
  \<^verbatim>\<open>justify-center\<close> and \<^verbatim>\<open>p-24\<close> (a flex column of at least the viewport height, centred
  on both axes, with fixed padding). The elements of the returned tree are that
  container, one heading and one paragraph, so both lie inside the container; the
  heading is the only heading of the tree and its text is exactly
  \<^verbatim>\<open>Frontend Template\<close>; the paragraph is the only paragraph and its text contains
  \<^verbatim>\<open>Next.js + React + Tailwind CSS\<close>.
\<close>

theorem HomePage_content:
  "\<exists>root h p.
     HomePage () = Inr root
     \<and> tag_of root = Some ''main''
     \<and> class_names root =
         [''flex'', ''min-h-screen'', ''flex-col'', ''items-center'', ''justify-center'', ''p-24'']
     \<and> elements_of root = [root, h, p]
     \<and> filter is_heading (elements_of root) = [h]
     \<and> text_of h = Some ''Frontend Template''
     \<and> filter is_paragraph (elements_of root) = [p]
     \<and> has_text_containing ''Next.js + React + Tailwind CSS'' p"
proof -
  let ?h = "RElement ''h1'' [(''className'', ''text-4xl font-bold'')]
              (RString ''Frontend Template'')"
  let ?p = "RElement ''p'' [(''className'', ''mt-4 text-lg text-gray-600'')]
              (RString ''Next.js + React + Tailwind CSS'')"
  let ?root = "RElement ''main''
      [(''className'', ''flex min-h-screen flex-col items-center justify-center p-24'')]
      (RArray [?h, ?p])"
  have page: "HomePage () = Inr ?root"
    by (rule HomePage_tree)
  have container: "tag_of ?root = Some ''main''"
    by (simp add: tag_of_def)
  have classes: "class_names ?root =
      [''flex'', ''min-h-screen'', ''flex-col'', ''items-center'', ''justify-center'', ''p-24'']"
    by (simp add: class_names_def attr_def SPACE_def)
  have elems: "elements_of ?root = [?root, ?h, ?p]"
    by simp
  have one_heading: "filter is_heading (elements_of ?root) = [?h]"
    by (simp add: is_heading_def tag_of_def)
  have heading_text: "text_of ?h = Some ''Frontend Template''"
    by (simp add: text_of_def)
  have one_paragraph: "filter is_paragraph (elements_of ?root) = [?p]"
    by (simp add: is_paragraph_def tag_of_def)
  have paragraph_text: "has_text_containing ''Next.js + React + Tailwind CSS'' ?p"
    by (simp add: has_text_containing_def text_of_def)
  from page container classes elems one_heading heading_text one_paragraph paragraph_text
  show ?thesis by blast
qed

text \<open>
  Claim C7. Any two calls of \<^verbatim>\<open>HomePage\<close> return equal trees, whatever the callers
  pass; in particular two calls with no arguments do.
\<close>

theorem HomePage_deterministic: "HomePage a = HomePage b"
  by (simp add: HomePage_def)

text \<open>
  Claim C10. The \<^verbatim>\<open>children\<close> prop of the \<^verbatim>\<open>main\<close> container that \<^verbatim>\<open>HomePage\<close> returns is
  an array of exactly two elements, a heading followed by a paragraph, and in
  document order the tree reads container, heading, paragraph.
\<close>

theorem HomePage_children_order:
  "\<exists>root h p.
     HomePage args = Inr root
     \<and> tag_of root = Some ''main''
     \<and> prop_children root = Some (RArray [h, p])
     \<and> is_heading h
     \<and> is_paragraph p
     \<and> elements_of root = [root, h, p]"
  unfolding HomePage_tree
  by (simp add: tag_of_def prop_children_def is_heading_def is_paragraph_def)

section \<open>The Root Layout\<close>

text \<open>
  Claim C2. There is one fixed pair of attribute lists such that, for every node
  \<open>V\<close>, \<^verbatim>\<open>RootLayout\<close> called with \<^verbatim>\<open>{ children: V }\<close> returns the \<^verbatim>\<open>html\<close> element holding
  the \<^verbatim>\<open>body\<close> element whose \<^verbatim>\<open>children\<close> prop is \<open>V\<close> itself.
\<close>

theorem RootLayout_wraps_children:
  "\<exists>html_attrs body_attrs. \<forall>V.
     RootLayout (Object \<lparr>children = V\<rparr>)
       = Inr (RElement ''html'' html_attrs (RElement ''body'' body_attrs V))"
  by (simp add: RootLayout_Object)

text \<open>
  Claim C5, as stated: the input interface of \<^verbatim>\<open>RootLayout\<close> is \<^verbatim>\<open>LayoutProps\<close>, with both
  \<^verbatim>\<open>children\<close> and \<^verbatim>\<open>params\<close>. It is not: the declared parameter type lists \<^verbatim>\<open>children\<close>
  alone, whereas \<^verbatim>\<open>LayoutProps\<close> lists \<^verbatim>\<open>params\<close> too, and an object that has a
  \<^verbatim>\<open>children\<close> property and nothing else is an argument of that type, on which
  \<^verbatim>\<open>RootLayout\<close> returns its document.
\<close>

theorem RootLayout_interface_counterexample:
  "''params'' \<notin> set RootLayout_param_properties
   \<and> ''params'' \<in> set LayoutProps_properties
   \<and> ChildrenProps.more \<lparr>children = RString ''page''\<rparr> = ()
   \<and> RootLayout (Object \<lparr>children = RString ''page''\<rparr>)
       = Inr (RElement ''html'' [(''lang'', ''en'')]
           (RElement ''body'' [(''className'', ''antialiased'')] (RString ''page'')))"
  by (simp add: RootLayout_param_properties_def LayoutProps_properties_def RootLayout_Object)

text \<open>
  Claim C5, amended. The declared input of \<^verbatim>\<open>RootLayout\<close> has the single field
  \<^verbatim>\<open>children\<close>: a value of the declared type is determined by its \<^verbatim>\<open>children\<close>.
  \<^verbatim>\<open>RootLayout\<close> reads nothing else: two arguments with equal \<^verbatim>\<open>children\<close> give the
  same result, whatever further fields either of them has or lacks. \<^verbatim>\<open>LayoutProps\<close>
  values are among these arguments, as a structural subtype, and their \<^verbatim>\<open>params\<close>
  are ignored.
\<close>

theorem RootLayout_reads_children_only:
  fixes p :: "'a ChildrenProps_scheme" and q :: "'b ChildrenProps_scheme"
    and r :: ChildrenProps
  assumes "children p = children q"
  shows "RootLayout (Object p) = RootLayout (Object q) \<and> r = \<lparr>children = children r\<rparr>"
  using assms by (simp add: RootLayout_Object)

theorem RootLayout_reads_children_only_witness:
  "children \<lparr>children = RString ''page''\<rparr>
     = children \<lparr>children = RString ''page'', params = Fulfilled [''id'' \<mapsto> ''42'']\<rparr>
   \<and> RootLayout (Object \<lparr>children = RString ''page''\<rparr>)
     = RootLayout (Object \<lparr>children = RString ''page'', params = Fulfilled [''id'' \<mapsto> ''42'']\<rparr>)
   \<and> RootLayout (Object \<lparr>children = RString ''page'', params = Pending\<rparr>)
     = RootLayout (Object \<lparr>children = RString ''page'', params = Fulfilled [''id'' \<mapsto> ''42'']\<rparr>)
   \<and> \<lparr>children = RString ''page''\<rparr>
     = \<lparr>children = children \<lparr>children = RString ''page''\<rparr>\<rparr>"
  using RootLayout_reads_children_only
    [of "\<lparr>children = RString ''page''\<rparr>"
        "\<lparr>children = RString ''page'', params = Fulfilled [''id'' \<mapsto> ''42'']\<rparr>"
        "\<lparr>children = RString ''page''\<rparr>"]
    RootLayout_reads_children_only
    [of "\<lparr>children = RString ''page'', params = Pending\<rparr>"
        "\<lparr>children = RString ''page'', params = Fulfilled [''id'' \<mapsto> ''42'']\<rparr>"
        "\<lparr>children = RString ''page''\<rparr>"]
  by simp

text \<open>
  Claim C6. \<^verbatim>\<open>HomePage\<close> completes normally on every call, and \<^verbatim>\<open>RootLayout\<close> completes
  normally whenever its argument is an object, whatever the \<^verbatim>\<open>children\<close> of that
  object are. (The one abrupt completion of the model, \<^term>\<open>RootLayout Nullish\<close>, is
  outside the well-formed inputs.)
\<close>

theorem components_total:
  "(\<exists>tree. HomePage args = Inr tree) \<and> (\<exists>doc. RootLayout (Object props) = Inr doc)"
  by (simp add: HomePage_tree RootLayout_Object)

text \<open>
  Claim C8. For every \<^verbatim>\<open>children\<close> value the document returned by \<^verbatim>\<open>RootLayout\<close> is an
  \<^verbatim>\<open>html\<close> element with \<^verbatim>\<open>lang="en"\<close>, whose child is a \<^verbatim>\<open>body\<close> element with the class
  \<^verbatim>\<open>antialiased\<close>, whose \<^verbatim>\<open>children\<close> prop is the value that was passed in.
\<close>

theorem RootLayout_shell:
  "\<exists>doc body.
     RootLayout (Object props) = Inr doc
     \<and> tag_of doc = Some ''html''
     \<and> attr doc ''lang'' = Some ''en''
     \<and> prop_children doc = Some body
     \<and> tag_of body = Some ''body''
     \<and> ''antialiased'' \<in> set (class_names body)
     \<and> prop_children body = Some (children props)"
  unfolding RootLayout_Object
  by (simp add: tag_of_def attr_def prop_children_def class_names_def SPACE_def)

text \<open>
  Claim C9. The \<^verbatim>\<open>children\<close> prop of the \<^verbatim>\<open>body\<close> element is the passed value itself,
  not an array around it: the nodes of the \<^verbatim>\<open>body\<close> subtree are the \<^verbatim>\<open>body\<close> element
  followed by the nodes of the passed value, once, and the nodes of the whole
  document are the \<^verbatim>\<open>html\<close> element, the \<^verbatim>\<open>body\<close> element and those.
\<close>

theorem body_holds_children_once:
  "\<exists>doc body.
     RootLayout (Object props) = Inr doc
     \<and> prop_children doc = Some body
     \<and> tag_of body = Some ''body''
     \<and> prop_children body = Some (children props)
     \<and> nodes_of body = body # nodes_of (children props)
     \<and> nodes_of doc = doc # body # nodes_of (children props)"
  unfolding RootLayout_Object
  by (simp add: tag_of_def prop_children_def)

section \<open>The metadata\<close>

text \<open>
  Claim C3. The exported \<^verbatim>\<open>metadata\<close> object has exactly two fields, \<^verbatim>\<open>title\<close> and
  \<^verbatim>\<open>description\<close>, with the values \<^verbatim>\<open>Frontend Template\<close> and
  \<^verbatim>\<open>Next.js frontend template with Tailwind CSS\<close>. It is a constant of the module: it
  takes no route and no request parameter.
\<close>

theorem metadata_fields:
  "length metadata = 2
   \<and> map fst metadata = [''title'', ''description'']
   \<and> map_of metadata ''title'' = Some ''Frontend Template''
   \<and> map_of metadata ''description'' = Some ''Next.js frontend template with Tailwind CSS''"
  by (simp add: metadata_def)

section \<open>The shapes of the shared types\<close>

text \<open>
  Claim C4. A \<^verbatim>\<open>PageProps\<close> value is determined by exactly two fields, \<^verbatim>\<open>params\<close> and
  \<^verbatim>\<open>searchParams\<close>; a \<^verbatim>\<open>LayoutProps\<close> value by exactly \<^verbatim>\<open>children\<close> and \<^verbatim>\<open>params\<close>. Each
  \<^verbatim>\<open>params\<close> is a promise that, once fulfilled, holds a map from strings to strings;
  \<^verbatim>\<open>searchParams\<close> is a promise that, once fulfilled, holds a map under which every
  name is absent or bound to a single string or to a sequence of strings;
  \<^verbatim>\<open>children\<close> is a node. Values of these shapes are values of the two types, and
  the fields read back what was put in.
\<close>

theorem shared_type_shapes:
  fixes pp :: PageProps and lp :: LayoutProps
    and query :: "string \<rightharpoonup> search_value" and route :: "string \<rightharpoonup> string"
  shows
    "pp = \<lparr>PageProps.params = PageProps.params pp, searchParams = searchParams pp\<rparr>
     \<and> lp = \<lparr>children = children lp, LayoutProps.params = LayoutProps.params lp\<rparr>
     \<and> (PageProps.params pp = Pending \<or> PageProps.params pp = Rejected
          \<or> (\<exists>m :: string \<rightharpoonup> string. PageProps.params pp = Fulfilled m))
     \<and> (searchParams pp = Pending \<or> searchParams pp = Rejected
          \<or> (\<exists>m :: string \<rightharpoonup> search_value. searchParams pp = Fulfilled m))
     \<and> (LayoutProps.params lp = Pending \<or> LayoutProps.params lp = Rejected
          \<or> (\<exists>m :: string \<rightharpoonup> string. LayoutProps.params lp = Fulfilled m))
     \<and> (query name = None \<or> query name = Some SUndefined
          \<or> (\<exists>s :: string. query name = Some (SString s))
          \<or> (\<exists>ss :: string list. query name = Some (SArray ss)))
     \<and> PageProps.params \<lparr>PageProps.params = Fulfilled route, searchParams = Fulfilled query\<rparr>
           = Fulfilled route
     \<and> searchParams \<lparr>PageProps.params = Fulfilled route, searchParams = Fulfilled query\<rparr>
           = Fulfilled query
     \<and> children \<lparr>children = node, LayoutProps.params = Fulfilled route\<rparr> = node
     \<and> LayoutProps.params \<lparr>children = node, LayoutProps.params = Fulfilled route\<rparr>
           = Fulfilled route"
proof -
  have async: "x = Pending \<or> x = Rejected \<or> (\<exists>m. x = Fulfilled m)" for x :: "'v promise"
    by (cases x) simp_all
  have entry: "query name = None \<or> query name = Some SUndefined
      \<or> (\<exists>s. query name = Some (SString s)) \<or> (\<exists>ss. query name = Some (SArray ss))"
  proof (cases "query name")
    case None
    then show ?thesis by simp
  next
    case (Some v)
    then show ?thesis by (cases v) simp_all
  qed
  show ?thesis
    using async [of "PageProps.params pp"] async [of "searchParams pp"]
      async [of "LayoutProps.params lp"] entry
    by simp
qed

end
